theory Spec2Isabelle
  imports Complex_Main "HOL-Library.AList" "HOL-Library.Log_Nat"
begin

section \<open>JavaScript values\<close>

text \<open>
  Request and response bodies are parsed JSON, typed \<open>any\<close> or \<open>Record<string, any>\<close>
  in the source. They are modelled by the datatype \<open>json\<close>, extended by the value
  \<open>undefined\<close> that a missing property reads as. An object is an association list in
  insertion order. The numbers of a body are integers here: token counts, whose sums are
  exact in double precision. Strings are byte lists; the literals of the source are
  ASCII.
\<close>

datatype json =
    JUndefined
  | JNull
  | JBool bool
  | JNum int
  | JStr string
  | JArr "json list"
  | JObj "(string \<times> json) list"

text \<open>
  A thrown exception. \<open>Error msg\<close> is \<open>new Error(msg)\<close>; \<open>TypeError\<close> is what the
  engine throws when a property of \<open>undefined\<close> or \<open>null\<close> is read or written (its
  message is the engine's and is not modelled).
\<close>

datatype js_error = Error string | TypeError


text \<open>Truthiness, as \<open>if (v)\<close> and \<open>!v\<close> test it.\<close>

fun js_truthy :: "json \<Rightarrow> bool" where
  "js_truthy JUndefined = False"
| "js_truthy JNull = False"
| "js_truthy (JBool b) = b"
| "js_truthy (JNum n) = (n \<noteq> 0)"
| "js_truthy (JStr s) = (s \<noteq> [])"
| "js_truthy (JArr xs) = True"
| "js_truthy (JObj kvs) = True"

text \<open>\<open>typeof v === "object"\<close>: objects, arrays and \<open>null\<close>.\<close>

fun js_typeof_object :: "json \<Rightarrow> bool" where
  "js_typeof_object JNull = True"
| "js_typeof_object (JArr xs) = True"
| "js_typeof_object (JObj kvs) = True"
| "js_typeof_object v = False"

text \<open>Decimal rendering of numbers, as template strings render them.\<close>

fun digit_char :: "nat \<Rightarrow> char" where
  "digit_char n = char_of (48 + n)"

function show_nat :: "nat \<Rightarrow> string" where
  "show_nat n = (if n < 10 then [digit_char n] else show_nat (n div 10) @ [digit_char (n mod 10)])"
  by pat_completeness auto
termination
  by (relation "measure id") auto

declare show_nat.simps [simp del]

definition show_int :: "int \<Rightarrow> string" where
  "show_int i = (if i < 0 then CHR ''-'' # show_nat (nat (- i)) else show_nat (nat i))"

text \<open>
  \<open>v.k\<close> for a property name \<open>k\<close> that is not an array index. Reading a property of
  \<open>undefined\<close> or \<open>null\<close> throws; a missing property reads as \<open>undefined\<close>.
\<close>

fun js_get :: "json \<Rightarrow> string \<Rightarrow> js_error + json" where
  "js_get JUndefined k = Inl TypeError"
| "js_get JNull k = Inl TypeError"
| "js_get (JObj kvs) k = Inr (case map_of kvs k of None \<Rightarrow> JUndefined | Some v \<Rightarrow> v)"
| "js_get (JArr xs) k = Inr (if k = ''length'' then JNum (int (length xs)) else JUndefined)"
| "js_get (JStr s) k = Inr (if k = ''length'' then JNum (int (length s)) else JUndefined)"
| "js_get (JBool b) k = Inr JUndefined"
| "js_get (JNum n) k = Inr JUndefined"

text \<open>\<open>v[i]\<close> for an index \<open>i\<close>.\<close>

fun js_idx :: "json \<Rightarrow> nat \<Rightarrow> js_error + json" where
  "js_idx JUndefined i = Inl TypeError"
| "js_idx JNull i = Inl TypeError"
| "js_idx (JArr xs) i = Inr (if i < length xs then xs ! i else JUndefined)"
| "js_idx (JStr s) i = Inr (if i < length s then JStr [s ! i] else JUndefined)"
| "js_idx (JObj kvs) i = Inr (case map_of kvs (show_nat i) of None \<Rightarrow> JUndefined | Some v \<Rightarrow> v)"
| "js_idx (JBool b) i = Inr JUndefined"
| "js_idx (JNum n) i = Inr JUndefined"

text \<open>
  \<open>v.k = x\<close> in a module (strict mode). On an object the property is replaced in place
  or appended. An array takes a named property too, but \<open>JSON.stringify\<close> does not
  serialise it, so the array is left as it is serialised. On \<open>null\<close>, \<open>undefined\<close>
  and primitives the assignment throws.
\<close>

fun js_set :: "json \<Rightarrow> string \<Rightarrow> json \<Rightarrow> js_error + json" where
  "js_set (JObj kvs) k x = Inr (JObj (AList.update k x kvs))"
| "js_set (JArr xs) k x = Inr (JArr xs)"
| "js_set v k x = Inl TypeError"

text \<open>
  Whether the JSON text that \<open>res.json(v)\<close> sends has the field \<open>k\<close>: the object has
  the property and its value is not \<open>undefined\<close> (such properties are dropped when
  the object is serialised).
\<close>

fun json_has_field :: "json \<Rightarrow> string \<Rightarrow> bool" where
  "json_has_field (JObj kvs) k = (case map_of kvs k of None \<Rightarrow> False | Some v \<Rightarrow> v \<noteq> JUndefined)"
| "json_has_field v k = False"

text \<open>A template string renders a missing string as \<open>undefined\<close>.\<close>

fun tmpl :: "string option \<Rightarrow> string" where
  "tmpl None = ''undefined''"
| "tmpl (Some s) = s"

fun opt_num :: "int option \<Rightarrow> json" where
  "opt_num None = JUndefined"
| "opt_num (Some n) = JNum n"

fun opt_str :: "string option \<Rightarrow> json" where
  "opt_str None = JUndefined"
| "opt_str (Some s) = JStr s"

subsection \<open>\<open>String.prototype.replace\<close> with a string pattern\<close>

text \<open>
  With a string as its first argument, \<open>replace\<close> looks for the first occurrence of
  that literal text; nothing in it is a regular expression. \<open>find_sub pat s\<close> splits
  \<open>s\<close> around the first occurrence of \<open>pat\<close>.
\<close>

fun find_sub :: "string \<Rightarrow> string \<Rightarrow> (string \<times> string) option" where
  "find_sub pat [] = (if pat = [] then Some ([], []) else None)"
| "find_sub pat (c # cs) =
     (if take (length pat) (c # cs) = pat then Some ([], drop (length pat) (c # cs))
      else (case find_sub pat cs of
              None \<Rightarrow> None
            | Some (b, a) \<Rightarrow> Some (c # b, a)))"

text \<open>
  The replacement text: \<open>$$\<close> is a dollar sign, \<open>$&\<close> the matched text, \<open>$`\<close> the
  text before the match and \<open>$'\<close> the text after it. A string pattern has no capture
  groups, so \<open>$1\<close> and the like stay as they are.
\<close>

fun expand_replacement :: "string \<Rightarrow> string \<Rightarrow> string \<Rightarrow> string \<Rightarrow> string" where
  "expand_replacement m b a [] = []"
| "expand_replacement m b a [c] = [c]"
| "expand_replacement m b a (c # d # ds) =
     (if c = CHR ''$'' \<and> d = CHR ''$'' then CHR ''$'' # expand_replacement m b a ds
      else if c = CHR ''$'' \<and> d = CHR ''&'' then m @ expand_replacement m b a ds
      else if c = CHR ''$'' \<and> d = CHR 0x60 then b @ expand_replacement m b a ds
      else if c = CHR ''$'' \<and> d = CHR 0x27 then a @ expand_replacement m b a ds
      else c # expand_replacement m b a (d # ds))"

definition js_replace :: "string \<Rightarrow> string \<Rightarrow> string \<Rightarrow> string" where
  "js_replace s pat rep =
     (case find_sub pat s of
        None \<Rightarrow> s
      | Some (b, a) \<Rightarrow> b @ expand_replacement pat b a rep @ a)"

section \<open>The data model\<close>

datatype ModelFamily = Turbo | Gpt4 | Gpt4_32k | Claude | Bison | AwsClaude

datatype APIFormat = OpenAI | OpenAIText | Anthropic | GooglePalm

datatype LLMService = ServiceOpenAI | ServiceAnthropic | ServiceGooglePalm | ServiceAws

text \<open>
  What \<open>res.write\<close> is given. \<open>Raw s\<close> is literal text. \<open>FakeSse type msg\<close> stands
  for the text \<open>buildFakeSse(type, msg, req)\<close> returns: the function is imported from
  \<open>shared/streaming\<close>, so the call is recorded with its arguments.
\<close>

datatype chunk = Raw string | FakeSse string string

text \<open>The part of an Express response (\<open>req.res\<close>) the modelled code reads and writes.\<close>

record Response =
  headersSent :: bool
  writableEnded :: bool
  statusCode :: nat
  written :: "chunk list"
  jsonBody :: "json option"

text \<open>
  A request ticket: the fields of the Express \<open>Request\<close> the modelled code uses.
  \<open>user\<close> holds \<open>req.user.token\<close> when \<open>req.user\<close> is set; \<open>body_model\<close> and
  \<open>body_stream\<close> are \<open>req.body.model\<close> and \<open>req.body.stream\<close>; \<open>query_badSseParser\<close>
  is \<open>req.query.badSseParser\<close>; \<open>host\<close> is \<open>req.get("host")\<close>; \<open>debug\<close> is
  \<open>req.debug\<close> (\<open>JUndefined\<close> when unset). \<open>onAborted\<close> says whether the abort hook is
  registered; \<open>heartbeatInterval\<close> is \<open>None\<close> when unset, \<open>Some True\<close> for a running
  timer and \<open>Some False\<close> for a cleared one. \<open>retryCount\<close> is a counter starting
  at 0.
\<close>

record Request =
  user :: "string option"
  risuToken :: "string option"
  ip :: string
  host :: "string option"
  inboundApi :: APIFormat
  outboundApi :: APIFormat
  service :: "LLMService option"
  body_model :: "string option"
  body_stream :: json
  isStreaming :: bool
  query_badSseParser :: "string option"
  startTime :: int
  retryCount :: nat
  queueOutTime :: "int option"
  promptTokens :: "int option"
  outputTokens :: "int option"
  debug :: json
  onAborted :: bool
  heartbeatInterval :: "bool option"
  res :: Response

text \<open>The outgoing upstream request (\<open>http.ClientRequest\<close>): its path, and the error it was destroyed with.\<close>

record ClientRequest =
  path :: string
  destroyed :: "js_error option"

section \<open>The PaLM proxy (\<open>palm.ts\<close>)\<close>

subsection \<open>\<open>rewritePalmRequest\<close>\<close>

text \<open>
  A rewriter of the pipeline (\<open>applyQuotaLimits\<close>, \<open>addKey\<close>, ... are imported from
  \<open>middleware/request\<close>): it mutates the outgoing request and may throw. It returns
  the outgoing request as it left it, and the exception when it threw.
\<close>

type_synonym rewriter = "ClientRequest \<Rightarrow> Request \<Rightarrow> js_error option \<times> ClientRequest"

text \<open>The path assignment of \<open>rewritePalmRequest\<close>.\<close>

definition rewritePalmPath :: "string \<Rightarrow> string option \<Rightarrow> string" where
  "rewritePalmPath p model =
     js_replace p ''^/v1/chat/completions''
       (''/v1beta2/models/'' @ tmpl model @ '':generateText'')"

text \<open>The \<open>for\<close> loop over the pipeline: it stops at the first rewriter that throws.\<close>

fun run_rewriters :: "rewriter list \<Rightarrow> ClientRequest \<Rightarrow> Request \<Rightarrow> js_error option \<times> ClientRequest" where
  "run_rewriters [] proxyReq req = (None, proxyReq)"
| "run_rewriters (rw # rws) proxyReq req =
     (case rw proxyReq req of
        (Some e, proxyReq') \<Rightarrow> (Some e, proxyReq')
      | (None, proxyReq') \<Rightarrow> run_rewriters rws proxyReq' req)"

text \<open>
  \<open>rewritePalmRequest\<close> returns the exception that leaves it (if any) and the outgoing
  request as it is then. The streaming check throws before the \<open>try\<close> block; an
  exception of the pipeline is caught and destroys the outgoing request.
\<close>

definition rewritePalmRequest :: "rewriter list \<Rightarrow> ClientRequest \<Rightarrow> Request \<Rightarrow> js_error option \<times> ClientRequest" where
  "rewritePalmRequest rewriterPipeline proxyReq req =
     (if js_truthy (body_stream req)
      then (Some (Error (''Google PaLM API doesn'' @ [CHR 0x27] @ ''t support streaming requests'')), proxyReq)
      else
        (let proxyReq1 = proxyReq\<lparr>path := rewritePalmPath (path proxyReq) (body_model req)\<rparr>
         in (case run_rewriters rewriterPipeline proxyReq1 req of
               (Some e, proxyReq2) \<Rightarrow> (None, proxyReq2\<lparr>destroyed := Some e\<rparr>)
             | (None, proxyReq2) \<Rightarrow> (None, proxyReq2))))"

subsection \<open>\<open>transformPalmResponse\<close> and \<open>palmResponseHandler\<close>\<close>

text \<open>
  \<open>uuid\<close> is the text \<open>v4()\<close> returns and \<open>now\<close> the value of \<open>Date.now()\<close>. The
  object literal is built after \<open>palmRespBody.candidates[0].output\<close> has been read, and
  that read throws when \<open>candidates\<close> or \<open>candidates[0]\<close> is missing.
\<close>

definition transformPalmResponse :: "string \<Rightarrow> int \<Rightarrow> json \<Rightarrow> Request \<Rightarrow> js_error + json" where
  "transformPalmResponse uuid now palmRespBody req =
     (let totalTokens =
            (case promptTokens req of None \<Rightarrow> 0 | Some n \<Rightarrow> n) +
            (case outputTokens req of None \<Rightarrow> 0 | Some n \<Rightarrow> n)
      in case js_get palmRespBody ''candidates'' of
           Inl e \<Rightarrow> Inl e
         | Inr candidates \<Rightarrow>
        (case js_idx candidates 0 of
           Inl e \<Rightarrow> Inl e
         | Inr candidate \<Rightarrow>
        (case js_get candidate ''output'' of
           Inl e \<Rightarrow> Inl e
         | Inr output \<Rightarrow>
             Inr (JObj
               [(''id'', JStr (''plm-'' @ uuid)),
                (''object'', JStr ''chat.completion''),
                (''created'', JNum now),
                (''model'', opt_str (body_model req)),
                (''usage'', JObj
                   [(''prompt_tokens'', opt_num (promptTokens req)),
                    (''completion_tokens'', opt_num (outputTokens req)),
                    (''total_tokens'', JNum totalTokens)]),
                (''choices'', JArr
                   [JObj
                      [(''message'', JObj
                          [(''role'', JStr ''assistant''),
                           (''content'', output)]),
                       (''finish_reason'', JNull),
                       (''index'', JNum 0)]])]))))"

text \<open>
  \<open>palmResponseHandler\<close> returns the status and the body it gives to \<open>res.json\<close>, or
  the exception it throws. \<open>promptLogging\<close> is \<open>config.promptLogging\<close>.
\<close>

definition proxy_note_text :: "string option \<Rightarrow> string" where
  "proxy_note_text h =
     ''Prompts are logged on this proxy instance. See '' @ tmpl h @ '' for more information.''"

definition palmResponseHandler :: "bool \<Rightarrow> string \<Rightarrow> int \<Rightarrow> Request \<Rightarrow> json \<Rightarrow> js_error + (nat \<times> json)" where
  "palmResponseHandler promptLogging uuid now req body =
     (if \<not> js_typeof_object body then Inl (Error ''Expected body to be an object'')
      else
        (case (if promptLogging
               then js_set body ''proxy_note'' (JStr (proxy_note_text (host req)))
               else Inr body) of
           Inl e \<Rightarrow> Inl e
         | Inr body1 \<Rightarrow>
        (case (if inboundApi req = OpenAI
               then transformPalmResponse uuid now body1 req
               else Inr body1) of
           Inl e \<Rightarrow> Inl e
         | Inr body2 \<Rightarrow>
        (case (if js_truthy (debug req)
               then js_set body2 ''proxy_tokenizer_debug_info'' (debug req)
               else Inr body2) of
           Inl e \<Rightarrow> Inl e
         | Inr body3 \<Rightarrow> Inr (200, body3)))))"

section \<open>The request queue (\<open>queue.ts\<close>)\<close>

text \<open>
  Requests are objects: the queue holds references to them, \<open>queue.indexOf(req)\<close>
  compares references, and \<open>req.queueOutTime = 0\<close> changes the one object every
  holder of the reference sees. So the queue is a list of references and the requests
  live in a store.
\<close>

type_synonym ref = nat

record WaitTime =
  wt_partition :: ModelFamily
  wt_start :: int
  wt_end :: int
  isDeprioritized :: bool

record State =
  queue :: "ref list"
  heap :: "ref \<Rightarrow> Request"
  waitTimes :: "WaitTime list"

text \<open>
  What the module reads from outside: the set \<open>SHARED_IP_ADDRESSES\<close> (imported from
  \<open>rate-limit\<close>), the three model-family functions (imported from \<open>shared/models\<close>)
  and whether \<open>process.env.NODE_ENV\<close> is \<open>production\<close>.
\<close>

record Env =
  SHARED_IP_ADDRESSES :: "string set"
  getClaudeModelFamily :: "string \<Rightarrow> ModelFamily"
  getOpenAIModelFamily :: "string \<Rightarrow> ModelFamily"
  getGooglePalmModelFamily :: "string \<Rightarrow> ModelFamily"
  production :: bool

definition AGNAI_CONCURRENCY_LIMIT :: nat where
  "AGNAI_CONCURRENCY_LIMIT = 5"

definition USER_CONCURRENCY_LIMIT :: nat where
  "USER_CONCURRENCY_LIMIT = 1"

definition isFromSharedIp :: "Env \<Rightarrow> Request \<Rightarrow> bool" where
  "isFromSharedIp E req = (ip req \<in> SHARED_IP_ADDRESSES E)"

text \<open>\<open>if (req.risuToken)\<close> is a truthiness test: an empty token counts as none.\<close>

definition getIdentifier :: "Env \<Rightarrow> Request \<Rightarrow> string" where
  "getIdentifier E req =
     (case user req of
        Some token \<Rightarrow> token
      | None \<Rightarrow>
          (if js_truthy (opt_str (risuToken req)) then tmpl (risuToken req)
           else if isFromSharedIp E req then ''shared-ip''
           else ip req))"

definition sharesIdentifierWith :: "Env \<Rightarrow> Request \<Rightarrow> Request \<Rightarrow> bool" where
  "sharesIdentifierWith E incoming queued = (getIdentifier E queued = getIdentifier E incoming)"

definition res_write :: "chunk \<Rightarrow> Response \<Rightarrow> Response" where
  "res_write c rs = rs\<lparr>written := written rs @ [c]\<rparr>"

text \<open>\<open>res.status(code).json(body)\<close>: the response is sent and ended.\<close>

definition res_status_json :: "nat \<Rightarrow> json \<Rightarrow> Response \<Rightarrow> Response" where
  "res_status_json code body rs =
     rs\<lparr>statusCode := code, jsonBody := Some body, headersSent := True, writableEnded := True\<rparr>"

definition upd_req :: "ref \<Rightarrow> (Request \<Rightarrow> Request) \<Rightarrow> State \<Rightarrow> State" where
  "upd_req r f s = s\<lparr>heap := (heap s)(r := f (heap s r))\<rparr>"

definition upd_res :: "ref \<Rightarrow> (Response \<Rightarrow> Response) \<Rightarrow> State \<Rightarrow> State" where
  "upd_res r f s = upd_req r (\<lambda>req. req\<lparr>res := f (res req)\<rparr>) s"

definition newline :: string where
  "newline = [CHR 0x0A]"

text \<open>
  Modelled from the spec: \<open>initializeSseStream\<close> is imported from \<open>shared/streaming\<close>;
  by the spec it opens the SSE channel during the queue wait, so the status is 200 and the
  headers are sent.
\<close>

definition initializeSseStream :: "Response \<Rightarrow> Response" where
  "initializeSseStream rs = rs\<lparr>statusCode := 200, headersSent := True\<rparr>"

definition initStreaming :: "ref \<Rightarrow> State \<Rightarrow> State" where
  "initStreaming r s =
     (let s1 = upd_res r initializeSseStream s
      in if js_truthy (opt_str (query_badSseParser (heap s1 r))) then s1
         else upd_res r
                (res_write (Raw ('': joining queue at position '' @ show_nat (length (queue s1))
                                 @ newline @ newline)))
                s1)"

definition getPartitionForRequest :: "Env \<Rightarrow> Request \<Rightarrow> ModelFamily" where
  "getPartitionForRequest E req =
     (let model = (case body_model req of None \<Rightarrow> ''gpt-3.5-turbo'' | Some m \<Rightarrow> m)
      in if service req = Some ServiceAws then AwsClaude
         else (case outboundApi req of
                 Anthropic \<Rightarrow> getClaudeModelFamily E model
               | OpenAI \<Rightarrow> getOpenAIModelFamily E model
               | OpenAIText \<Rightarrow> getOpenAIModelFamily E model
               | GooglePalm \<Rightarrow> getGooglePalmModelFamily E model))"

subsection \<open>Numbers\<close>

text \<open>
  A JavaScript number is a double. The time stamps of the queue are values of
  \<open>Date.now()\<close>, integers, and a sum or a difference of integers is exact in double
  precision as long as it stays below \<open>2^53\<close> in magnitude, which time stamps and waits
  in milliseconds do (\<open>2^53\<close> ms are more than 285000 years): they are modelled by
  \<open>int\<close>. A quotient is not exact: \<open>a / b\<close> is the double nearest to the exact
  quotient, and of two nearest doubles the one with the even significand.

  \<open>round_double x\<close> is that double, as a rational number. \<open>binary_exponent x\<close> is
  the \<open>e\<close> with \<open>2^e \<le> x < 2^(e+1)\<close>; a double has 53 significant bits, so around
  \<open>x\<close> the doubles are the multiples of \<open>ulp x = 2^(e-52)\<close>, and the multiples of
  \<open>2^(-1074)\<close> below \<open>2^(-1022)\<close>. From \<open>2^1024\<close> on JavaScript rounds to
  \<open>Infinity\<close>; a quotient of two integers below \<open>2^53\<close> is far from there.
\<close>

definition pow2 :: "int \<Rightarrow> rat" where
  "pow2 e = (if 0 \<le> e then 2 ^ nat e else 1 / 2 ^ nat (- e))"

definition round_half_even :: "rat \<Rightarrow> int" where
  "round_half_even x =
     (let f = \<lfloor>x\<rfloor>; d = x - of_int f
      in if d < 1 / 2 then f
         else if 1 / 2 < d then f + 1
         else if even f then f else f + 1)"

definition binary_exponent :: "rat \<Rightarrow> int" where
  "binary_exponent x =
     (let (a, b) = quotient_of x; d = bitlen a - bitlen b
      in if pow2 d \<le> x then d else d - 1)"

definition ulp :: "rat \<Rightarrow> rat" where
  "ulp x = pow2 (max (binary_exponent \<bar>x\<bar>) (- 1022) - 52)"

definition round_double :: "rat \<Rightarrow> rat" where
  "round_double x =
     (if x = 0 then 0
      else sgn x * of_int (round_half_even (\<bar>x\<bar> / ulp x)) * ulp x)"

text \<open>\<open>x / y\<close> on numbers, for a divisor that is not 0 (as every divisor of the modelled code is).\<close>

definition js_divide :: "rat \<Rightarrow> rat \<Rightarrow> rat" where
  "js_divide x y = round_double (x / y)"

text \<open>\<open>Math.round\<close>: to the nearest integer, halves upwards.\<close>

definition math_round :: "rat \<Rightarrow> int" where
  "math_round x = \<lfloor>x + 1 / 2\<rfloor>"

subsection \<open>Wait times\<close>

definition trackWaitTime :: "Env \<Rightarrow> int \<Rightarrow> ref \<Rightarrow> State \<Rightarrow> State" where
  "trackWaitTime E now r s =
     (let req = heap s r
      in s\<lparr>waitTimes := waitTimes s @
            [\<lparr>wt_partition = getPartitionForRequest E req,
              wt_start = startTime req,
              wt_end = (case queueOutTime req of None \<Rightarrow> now | Some t \<Rightarrow> t),
              isDeprioritized = isFromSharedIp E req\<rparr>]\<rparr>)"

text \<open>
  The sum is a sum of integers, as \<open>reduce\<close> computes it from the left; the quotient
  is the double that the division of the sum by the length returns.
\<close>

definition getEstimatedWaitTime :: "int \<Rightarrow> WaitTime list \<Rightarrow> ModelFamily \<Rightarrow> rat" where
  "getEstimatedWaitTime now wts p =
     (let recentWaits =
            filter (\<lambda>wait.
              let isSamePartition = (wt_partition wait = p);
                  isRecent = (now - wt_end wait < 300 * 1000);
                  isNormalPriority = (\<not> isDeprioritized wait)
              in isSamePartition \<and> isRecent \<and> isNormalPriority) wts
      in if length recentWaits = 0 then 0
         else js_divide
                (of_int (foldl (\<lambda>sum wait. sum + wt_end wait - wt_start wait) 0 recentWaits))
                (of_nat (length recentWaits)))"

subsection \<open>\<open>enqueue\<close> and the heartbeat\<close>

text \<open>
  The callback given to \<open>setInterval\<close> in \<open>enqueue\<close>, run for the request \<open>r\<close> at
  time \<open>now\<close>.
\<close>

definition heartbeat :: "Env \<Rightarrow> int \<Rightarrow> ref \<Rightarrow> State \<Rightarrow> State" where
  "heartbeat E now r s =
     (let req = heap s r
      in if production E
         then (if \<not> js_truthy (opt_str (query_badSseParser req))
               then upd_res r (res_write (Raw ('': queue heartbeat'' @ newline @ newline))) s
               else s)
         else
           (let partition = getPartitionForRequest E req;
                avgWait = math_round (js_divide (getEstimatedWaitTime now (waitTimes s) partition) 1000);
                currentDuration = math_round (js_divide (of_int (now - startTime req)) 1000);
                debugMsg = ''queue length: '' @ show_nat (length (queue s))
                           @ ''; elapsed time: '' @ show_int currentDuration
                           @ ''s; avg wait: '' @ show_int avgWait @ ''s''
            in upd_res r (res_write (FakeSse ''heartbeat'' debugMsg)) s))"

text \<open>
  \<open>enqueue_accept\<close> is \<open>enqueue\<close> from \<open>queue.push(req)\<close> on. \<open>enqueue\<close> throws only
  before it changes anything, so the exception carries no state. The listeners of the
  proxy library that it removes and its log lines are not part of the model.
\<close>

definition enqueue_accept :: "ref \<Rightarrow> State \<Rightarrow> State" where
  "enqueue_accept r s =
     (let s1 = s\<lparr>queue := queue s @ [r]\<rparr>;
          s2 = upd_req r (\<lambda>q. q\<lparr>queueOutTime := Some 0\<rparr>) s1;
          stream = body_stream (heap s r);
          s3 = (if stream = JStr ''true'' \<or> stream = JBool True \<or> isStreaming (heap s r)
                then
                  (let s2' = (if \<not> headersSent (res (heap s2 r)) then initStreaming r s2 else s2)
                   in upd_req r (\<lambda>q. q\<lparr>heartbeatInterval := Some True\<rparr>) s2')
                else s2)
      in upd_req r (\<lambda>q. q\<lparr>onAborted := True\<rparr>) s3)"

definition enqueue :: "Env \<Rightarrow> ref \<Rightarrow> State \<Rightarrow> js_error + State" where
  "enqueue E r s =
     (let req = heap s r;
          enqueuedRequestCount = length (filter (\<lambda>q. sharesIdentifierWith E req (heap s q)) (queue s));
          isGuest = (user req = None);
          isSharedIp = isFromSharedIp E req;
          maxConcurrentQueuedRequests =
            (if isGuest \<and> isSharedIp then AGNAI_CONCURRENCY_LIMIT else USER_CONCURRENCY_LIMIT)
      in if enqueuedRequestCount \<ge> maxConcurrentQueuedRequests
         then (if isSharedIp
               then (if retryCount req = 0
                     then Inl (Error ''Too many agnai.chat requests are already queued'')
                     else Inr (enqueue_accept r s))
               else Inl (Error ''Your IP or token already has a request in the queue''))
         else Inr (enqueue_accept r s))"

text \<open>The abort hook \<open>removeFromQueue\<close> that \<open>enqueue\<close> registers for the request \<open>r\<close>.\<close>

definition removeFromQueue :: "ref \<Rightarrow> State \<Rightarrow> State" where
  "removeFromQueue r s =
     upd_req r (\<lambda>q. q\<lparr>heartbeatInterval := map_option (\<lambda>_. False) (heartbeatInterval q)\<rparr>)
       (s\<lparr>queue := remove1 r (queue s)\<rparr>)"



subsection \<open>\<open>dequeue\<close>\<close>

text \<open>
  \<open>Array.prototype.sort\<close> is stable. For a comparator that orders by one key, as the
  one of \<open>getQueueForPartition\<close> does, every stable sort returns the same list; stable
  insertion is the one written here.
\<close>

fun js_insert :: "('a \<Rightarrow> 'a \<Rightarrow> int) \<Rightarrow> 'a \<Rightarrow> 'a list \<Rightarrow> 'a list" where
  "js_insert cmp x [] = [x]"
| "js_insert cmp x (y # ys) = (if cmp x y \<le> 0 then x # y # ys else y # js_insert cmp x ys)"

definition js_sort :: "('a \<Rightarrow> 'a \<Rightarrow> int) \<Rightarrow> 'a list \<Rightarrow> 'a list" where
  "js_sort cmp xs = foldr (js_insert cmp) xs []"

definition exemptedLast :: "Env \<Rightarrow> Request \<Rightarrow> Request \<Rightarrow> int" where
  "exemptedLast E a b =
     (let aIsExempted = isFromSharedIp E a;
          bIsExempted = isFromSharedIp E b
      in if aIsExempted \<and> \<not> bIsExempted then 1
         else if \<not> aIsExempted \<and> bIsExempted then - 1
         else 0)"

definition getQueueForPartition :: "Env \<Rightarrow> State \<Rightarrow> ModelFamily \<Rightarrow> ref list" where
  "getQueueForPartition E s p =
     js_sort (\<lambda>a b. exemptedLast E (heap s a) (heap s b))
       (filter (\<lambda>r. getPartitionForRequest E (heap s r) = p) (queue s))"

text \<open>\<open>reduce\<close> without an initial value, on an array that is not empty.\<close>

definition js_reduce1 :: "('a \<Rightarrow> 'a \<Rightarrow> 'a) \<Rightarrow> 'a list \<Rightarrow> 'a" where
  "js_reduce1 f xs = foldl f (hd xs) (tl xs)"

definition dequeue :: "Env \<Rightarrow> int \<Rightarrow> ModelFamily \<Rightarrow> State \<Rightarrow> ref option \<times> State" where
  "dequeue E now p s =
     (let modelQueue = getQueueForPartition E s p
      in if length modelQueue = 0 then (None, s)
         else
           (let r = js_reduce1
                      (\<lambda>prev curr. if startTime (heap s prev) < startTime (heap s curr) then prev else curr)
                      modelQueue;
                s1 = s\<lparr>queue := remove1 r (queue s)\<rparr>;
                s2 = upd_req r (\<lambda>q. q\<lparr>onAborted := False\<rparr>) s1;
                s3 = upd_req r (\<lambda>q. q\<lparr>heartbeatInterval := map_option (\<lambda>_. False) (heartbeatInterval q)\<rparr>) s2
            in (Some r, upd_req r (\<lambda>q. q\<lparr>queueOutTime := Some now\<rparr>) s3)))"

subsection \<open>\<open>cleanQueue\<close>\<close>

definition killQueuedRequest :: "ref \<Rightarrow> State \<Rightarrow> State" where
  "killQueuedRequest r s =
     (if writableEnded (res (heap s r)) then s
      else
        (let message =
               ''Your request has been terminated by the proxy because it has been in the queue for more than 5 minutes. The queue is currently ''
               @ show_nat (length (queue s)) @ '' requests long.''
         in if headersSent (res (heap s r))
            then upd_res r (\<lambda>rs. (res_write (FakeSse ''proxy queue error'' message) rs)\<lparr>writableEnded := True\<rparr>) s
            else upd_res r (res_status_json 500 (JObj [(''error'', JStr message)])) s))"

text \<open>\<open>findIndex\<close>: the index of the first element that satisfies the test, or \<open>-1\<close>.\<close>

fun js_findIndex :: "('a \<Rightarrow> bool) \<Rightarrow> 'a list \<Rightarrow> int" where
  "js_findIndex P [] = - 1"
| "js_findIndex P (x # xs) =
     (if P x then 0 else (let i = js_findIndex P xs in if i = - 1 then - 1 else i + 1))"

text \<open>
  One run of \<open>cleanQueue\<close> at time \<open>now\<close>. \<open>waitTimes.splice(0, index + 1)\<close> removes
  the first \<open>index + 1\<close> samples.
\<close>

definition cleanQueue :: "int \<Rightarrow> State \<Rightarrow> State" where
  "cleanQueue now s =
     (let oldRequests = filter (\<lambda>r. now - startTime (heap s r) > 5 * 60 * 1000) (queue s);
          s1 = foldl (\<lambda>st r. killQueuedRequest r st) s oldRequests;
          index = js_findIndex (\<lambda>waitTime. now - wt_end waitTime > 300 * 1000) (waitTimes s1)
      in s1\<lparr>waitTimes := drop (nat (index + 1)) (waitTimes s1)\<rparr>)"

section \<open>Reading a path of properties; runs of the queue\<close>

text \<open>\<open>js_path v [Inl ''a'', Inr 0, Inl ''b'']\<close> is \<open>v.a[0].b\<close>.\<close>

fun js_path :: "json \<Rightarrow> (string + nat) list \<Rightarrow> js_error + json" where
  "js_path v [] = Inr v"
| "js_path v (Inl k # ks) = (case js_get v k of Inl e \<Rightarrow> Inl e | Inr w \<Rightarrow> js_path w ks)"
| "js_path v (Inr i # ks) = (case js_idx v i of Inl e \<Rightarrow> Inl e | Inr w \<Rightarrow> js_path w ks)"

text \<open>
  The states the queue module reaches from a state \<open>s0\<close>: by a call of \<open>enqueue\<close>
  that returns, of \<open>dequeue\<close>, of the abort hook, of a heartbeat, of \<open>trackWaitTime\<close>
  or of \<open>cleanQueue\<close>, for any request and at any time.
\<close>

inductive reachable :: "Env \<Rightarrow> State \<Rightarrow> State \<Rightarrow> bool" for E :: Env and s0 :: State where
  reach_init: "reachable E s0 s0"
| reach_enqueue: "reachable E s0 s \<Longrightarrow> enqueue E r s = Inr s' \<Longrightarrow> reachable E s0 s'"
| reach_dequeue: "reachable E s0 s \<Longrightarrow> reachable E s0 (snd (dequeue E now p s))"
| reach_abort: "reachable E s0 s \<Longrightarrow> reachable E s0 (removeFromQueue r s)"
| reach_heartbeat: "reachable E s0 s \<Longrightarrow> reachable E s0 (heartbeat E now r s)"
| reach_track: "reachable E s0 s \<Longrightarrow> reachable E s0 (trackWaitTime E now r s)"
| reach_clean: "reachable E s0 s \<Longrightarrow> reachable E s0 (cleanQueue now s)"

section \<open>Example inputs\<close>

text \<open>
  Modelled from the spec: the model-family functions are imported from \<open>shared/models\<close>.
  The spec has them map a model's prefix to its family, unknown OpenAI models falling
  back to \<open>turbo\<close>.
\<close>

definition example_getOpenAIModelFamily :: "string \<Rightarrow> ModelFamily" where
  "example_getOpenAIModelFamily model =
     (if take 9 model = ''gpt-4-32k'' then Gpt4_32k
      else if take 5 model = ''gpt-4'' then Gpt4
      else Turbo)"

text \<open>An environment with one shared address, not in production mode.\<close>

definition env0 :: Env where
  "env0 = \<lparr>SHARED_IP_ADDRESSES = {''9.9.9.9''},
           getClaudeModelFamily = (\<lambda>_. Claude),
           getOpenAIModelFamily = example_getOpenAIModelFamily,
           getGooglePalmModelFamily = (\<lambda>_. Bison),
           production = False\<rparr>"

definition res0 :: Response where
  "res0 = \<lparr>headersSent = False, writableEnded = False, statusCode = 200, written = [], jsonBody = None\<rparr>"

text \<open>A fresh request of a guest at the address \<open>1.2.3.4\<close> for \<open>gpt-3.5-turbo\<close>.\<close>

definition req0 :: Request where
  "req0 = \<lparr>user = None, risuToken = None, ip = ''1.2.3.4'', host = Some ''proxy.example'',
            inboundApi = OpenAI, outboundApi = OpenAI, service = None,
            body_model = Some ''gpt-3.5-turbo'', body_stream = JUndefined, isStreaming = False,
            query_badSseParser = None, startTime = 0, retryCount = 0, queueOutTime = None,
            promptTokens = None, outputTokens = None, debug = JUndefined,
            onAborted = False, heartbeatInterval = None, res = res0\<rparr>"

text \<open>The same, from the shared address.\<close>

definition req_shared :: Request where
  "req_shared = req0\<lparr>ip := ''9.9.9.9''\<rparr>"

text \<open>A request to the PaLM endpoint in the OpenAI dialect, and the upstream body of the spec's scenario.\<close>

definition req_palm :: Request where
  "req_palm = req0\<lparr>outboundApi := GooglePalm, body_model := Some ''text-bison-001'',
                    body_stream := JBool False, promptTokens := Some 3, outputTokens := Some 1\<rparr>"

definition body_pong :: json where
  "body_pong = JObj [(''candidates'', JArr [JObj [(''output'', JStr ''pong'')]])]"

text \<open>An upstream body without candidates, as PaLM sends when its filters drop them all.\<close>

definition body_filtered :: json where
  "body_filtered = JObj [(''filters'', JArr [JObj [(''reason'', JStr ''SAFETY'')]])]"

definition proxyReq0 :: ClientRequest where
  "proxyReq0 = \<lparr>path = ''/v1/chat/completions'', destroyed = None\<rparr>"

definition state0 :: State where
  "state0 = \<lparr>queue = [], heap = (\<lambda>_. req0), waitTimes = []\<rparr>"

text \<open>Two wait samples that both ended long before the time \<open>1000000\<close>.\<close>

definition sample1 :: WaitTime where
  "sample1 = \<lparr>wt_partition = Turbo, wt_start = 0, wt_end = 1000, isDeprioritized = False\<rparr>"

definition sample2 :: WaitTime where
  "sample2 = \<lparr>wt_partition = Turbo, wt_start = 500, wt_end = 2000, isDeprioritized = False\<rparr>"

definition state_stale :: State where
  "state_stale = state0\<lparr>waitTimes := [sample1, sample2]\<rparr>"

text \<open>
  The spec's scenario of deprioritization: a ticket from the shared address is queued
  first, a ticket from a regular address arrives second and starts later. Both are in
  the partition \<open>turbo\<close>.
\<close>

definition state_mixed :: State where
  "state_mixed = \<lparr>queue = [1, 2],
                  heap = (\<lambda>_. req0)(1 := req_shared\<lparr>startTime := 100\<rparr>, 2 := req0\<lparr>startTime := 200\<rparr>),
                  waitTimes = []\<rparr>"


text \<open>An empty queue; the request 1 is a guest's from the shared address.\<close>

definition state_shared :: State where
  "state_shared = \<lparr>queue = [], heap = (\<lambda>_. req0)(1 := req_shared), waitTimes = []\<rparr>"

text \<open>
  The request 1 waits in the queue; it is streaming, its headers are sent, and it came
  with \<open>?badSseParser=true\<close>.
\<close>

definition req_bad :: Request where
  "req_bad = req0\<lparr>isStreaming := True, query_badSseParser := Some ''true''\<rparr>"

definition state_bad :: State where
  "state_bad = \<lparr>queue = [1],
                heap = (\<lambda>_. req0)(1 := req_bad\<lparr>res := res0\<lparr>headersSent := True\<rparr>,
                                                heartbeatInterval := Some True, onAborted := True\<rparr>),
                waitTimes = []\<rparr>"






section \<open>The claims in the spec's words\<close>

text \<open>
  The arithmetic mean of a list of durations. The wait samples the spec has the estimate
  count at time \<open>now\<close> for the partition \<open>p\<close> are those of the partition whose end
  lies within the last 5 minutes and that are not deprioritized (\<open>spec_samples\<close>). The
  code counts a sample when it ended less than 5 minutes before \<open>now\<close>, also when it is
  stamped later than \<open>now\<close> (\<open>counted_samples\<close>).
\<close>

definition arithmetic_mean :: "int list \<Rightarrow> rat" where
  "arithmetic_mean ds = of_int (sum_list ds) / of_nat (length ds)"



definition counted_samples :: "int \<Rightarrow> ModelFamily \<Rightarrow> WaitTime list \<Rightarrow> WaitTime list" where
  "counted_samples now p wts =
     filter (\<lambda>w. wt_partition w = p \<and> now - 5 * 60 * 1000 < wt_end w \<and> isDeprioritized w = False) wts"

text \<open>
  The number of queued tickets that share the identity of the ticket \<open>r\<close>, and the cap
  of a ticket as the code has it: 5 for a guest (no user token) at a shared address, 1
  for every other ticket.
\<close>

definition queued_with_identity :: "Env \<Rightarrow> State \<Rightarrow> ref \<Rightarrow> nat" where
  "queued_with_identity E s r =
     length (filter (\<lambda>q. getIdentifier E (heap s q) = getIdentifier E (heap s r)) (queue s))"

definition identity_cap :: "Env \<Rightarrow> Request \<Rightarrow> nat" where
  "identity_cap E req = (if user req = None \<and> isFromSharedIp E req then 5 else 1)"

section \<open>Properties of the PaLM proxy\<close>

subsection \<open>The path of the upstream request\<close>

lemma find_sub_None: "pat \<noteq> [] \<Longrightarrow> hd pat \<notin> set s \<Longrightarrow> find_sub pat s = None"
proof (induction s)
  case Nil
  then show ?case by simp
next
  case (Cons c cs)
  from Cons.prems have "take (length pat) (c # cs) \<noteq> pat"
    by (cases pat) auto
  with Cons show ?case by simp
qed

text \<open>
  The pattern is the literal text \<open>^/v1/chat/completions\<close>, caret included. A path
  without a caret does not contain it, and is left as it is.
\<close>

lemma rewritePalmPath_unchanged:
  "CHR ''^'' \<notin> set p \<Longrightarrow> rewritePalmPath p model = p"
  by (simp add: rewritePalmPath_def js_replace_def find_sub_None)

text \<open>
  So for a request that is not streaming and a path without a caret, the path assignment
  of \<open>rewritePalmRequest\<close> changes nothing: the pipeline is run on the outgoing request
  as it came.
\<close>

lemma rewritePalmRequest_path_kept:
  assumes "\<not> js_truthy (body_stream req)" and "CHR ''^'' \<notin> set (path proxyReq)"
  shows "rewritePalmRequest rewriterPipeline proxyReq req =
           (case run_rewriters rewriterPipeline proxyReq req of
              (Some e, proxyReq2) \<Rightarrow> (None, proxyReq2\<lparr>destroyed := Some e\<rparr>)
            | (None, proxyReq2) \<Rightarrow> (None, proxyReq2))"
  using assms by (simp add: rewritePalmRequest_def rewritePalmPath_unchanged)

text \<open>
  C5. The claim: for a proxied PaLM chat-completion request the rewriter replaces the
  client path \<open>/v1/chat/completions\<close> by \<open>/v1beta2/models/{model}:generateText\<close>.
  The code does not: for the request of the spec's scenario (model \<open>text-bison-001\<close>, not
  streaming) and an empty pipeline, \<open>rewritePalmRequest\<close> leaves the outgoing request as
  it was, its path still \<open>/v1/chat/completions\<close>.
\<close>

theorem C5_palm_path_not_rewritten:
  "rewritePalmRequest [] proxyReq0 req_palm = (None, proxyReq0) \<and>
   path (snd (rewritePalmRequest [] proxyReq0 req_palm)) = ''/v1/chat/completions'' \<and>
   path (snd (rewritePalmRequest [] proxyReq0 req_palm)) \<noteq> ''/v1beta2/models/text-bison-001:generateText''"
  by (simp add: rewritePalmRequest_def rewritePalmPath_def js_replace_def proxyReq0_def req_palm_def req0_def)

subsection \<open>Streaming requests\<close>

text \<open>
  C10. The claim: for a request whose body has a truthy \<open>stream\<close> field the rewriter
  raises the error "Google PaLM API doesn't support streaming requests" and the upstream
  request is destroyed. The code raises that error, for every pipeline and every
  outgoing request, but it does so before the \<open>try\<close> block: the outgoing request is
  returned exactly as it was given, so \<open>proxyReq.destroy\<close> has not been called.
\<close>

theorem C10_streaming_throws_without_destroy:
  "js_truthy (body_stream req) \<Longrightarrow>
     rewritePalmRequest rewriterPipeline proxyReq req =
       (Some (Error (''Google PaLM API doesn'' @ [CHR 0x27] @ ''t support streaming requests'')), proxyReq)"
  by (simp add: rewritePalmRequest_def)

theorem C10_streaming_witness:
  "js_truthy (body_stream (req_palm\<lparr>body_stream := JBool True\<rparr>)) \<and>
   rewritePalmRequest [] proxyReq0 (req_palm\<lparr>body_stream := JBool True\<rparr>) =
     (Some (Error (''Google PaLM API doesn'' @ [CHR 0x27] @ ''t support streaming requests'')), proxyReq0) \<and>
   destroyed (snd (rewritePalmRequest [] proxyReq0 (req_palm\<lparr>body_stream := JBool True\<rparr>))) = None"
  using C10_streaming_throws_without_destroy [of "req_palm\<lparr>body_stream := JBool True\<rparr>" "[]" proxyReq0]
  by (simp add: proxyReq0_def)

subsection \<open>The note on prompt logging\<close>

lemma transform_no_note:
  "transformPalmResponse uuid now body req = Inr b \<Longrightarrow> \<not> json_has_field b ''proxy_note''"
  by (auto simp: transformPalmResponse_def Let_def split: sum.splits)

lemma js_set_other:
  "js_set b k x = Inr b' \<Longrightarrow> k \<noteq> k' \<Longrightarrow> json_has_field b' k' = json_has_field b k'"
  by (cases b) (auto simp: update_conv')

text \<open>
  C6. The claim: when prompt logging is enabled, the body sent to the client has a
  \<open>proxy_note\<close> field, also when it was transformed to the OpenAI shape. The code sets
  the field on the PaLM body and then replaces that body by the transformed one, which
  is built without it: for a request in the OpenAI dialect the body that is sent never
  has the field, whatever \<open>config.promptLogging\<close> is.
\<close>

theorem C6_proxy_note_lost_by_transform:
  assumes "inboundApi req = OpenAI"
    and "palmResponseHandler promptLogging uuid now req body = Inr (st, sent)"
  shows "\<not> json_has_field sent ''proxy_note''"
proof -
  from assms obtain body1 body2 where
    t: "transformPalmResponse uuid now body1 req = Inr body2" and
    d: "(if js_truthy (debug req) then js_set body2 ''proxy_tokenizer_debug_info'' (debug req)
         else Inr body2) = Inr sent"
    by (auto simp: palmResponseHandler_def split: if_splits sum.splits)
  from t have n: "\<not> json_has_field body2 ''proxy_note''"
    by (rule transform_no_note)
  show ?thesis
  proof (cases "js_truthy (debug req)")
    case True
    with d have "js_set body2 ''proxy_tokenizer_debug_info'' (debug req) = Inr sent" by simp
    then have "json_has_field sent ''proxy_note'' = json_has_field body2 ''proxy_note''"
      by (rule js_set_other) simp
    with n show ?thesis by simp
  next
    case False
    with d n show ?thesis by simp
  qed
qed

text \<open>Prompt logging enabled, the request and the upstream body of the spec's PaLM scenario.\<close>

theorem C6_proxy_note_witness:
  "inboundApi req_palm = OpenAI \<and>
   palmResponseHandler True ''0000'' 0 req_palm body_pong =
     Inr (200, JObj [(''id'', JStr ''plm-0000''), (''object'', JStr ''chat.completion''),
        (''created'', JNum 0), (''model'', JStr ''text-bison-001''),
        (''usage'', JObj [(''prompt_tokens'', JNum 3), (''completion_tokens'', JNum 1), (''total_tokens'', JNum 4)]),
        (''choices'', JArr [JObj [(''message'', JObj [(''role'', JStr ''assistant''), (''content'', JStr ''pong'')]),
                                   (''finish_reason'', JNull), (''index'', JNum 0)]])]) \<and>
   \<not> json_has_field (snd (projr (palmResponseHandler True ''0000'' 0 req_palm body_pong))) ''proxy_note''"
proof -
  have a: "inboundApi req_palm = OpenAI" by (simp add: req_palm_def req0_def)
  have b: "palmResponseHandler True ''0000'' 0 req_palm body_pong =
     Inr (200, JObj [(''id'', JStr ''plm-0000''), (''object'', JStr ''chat.completion''),
        (''created'', JNum 0), (''model'', JStr ''text-bison-001''),
        (''usage'', JObj [(''prompt_tokens'', JNum 3), (''completion_tokens'', JNum 1), (''total_tokens'', JNum 4)]),
        (''choices'', JArr [JObj [(''message'', JObj [(''role'', JStr ''assistant''), (''content'', JStr ''pong'')]),
                                   (''finish_reason'', JNull), (''index'', JNum 0)]])])"
    by (simp add: palmResponseHandler_def transformPalmResponse_def req_palm_def req0_def body_pong_def proxy_note_text_def)
  from C6_proxy_note_lost_by_transform [OF a b] a b show ?thesis by simp
qed

subsection \<open>The normalized response\<close>

lemma js_set_get_other:
  "js_set b k x = Inr b' \<Longrightarrow> k \<noteq> k' \<Longrightarrow> js_get b' k' = js_get b k'"
  by (cases b) (auto simp: update_conv')

text \<open>
  The claim C4 speaks of every upstream body. An upstream body without candidates
  (here one that only lists the filters that dropped them) makes the read of
  \<open>candidates[0].output\<close> throw: there is no normalized response.
\<close>

theorem C4_counterexample:
  "palmResponseHandler False ''0000'' 0 req_palm body_filtered = Inl TypeError \<and>
   transformPalmResponse ''0000'' 0 body_filtered req_palm = Inl TypeError"
  by (simp add: palmResponseHandler_def transformPalmResponse_def req_palm_def req0_def body_filtered_def)

lemma transform_readable:
  assumes "js_path body [Inl ''candidates'', Inr 0, Inl ''output''] = Inr out"
  shows "transformPalmResponse uuid now body req =
     Inr (JObj
       [(''id'', JStr (''plm-'' @ uuid)),
        (''object'', JStr ''chat.completion''),
        (''created'', JNum now),
        (''model'', opt_str (body_model req)),
        (''usage'', JObj
           [(''prompt_tokens'', opt_num (promptTokens req)),
            (''completion_tokens'', opt_num (outputTokens req)),
            (''total_tokens'', JNum ((case promptTokens req of None \<Rightarrow> 0 | Some n \<Rightarrow> n) +
                                     (case outputTokens req of None \<Rightarrow> 0 | Some n \<Rightarrow> n)))]),
        (''choices'', JArr
           [JObj
              [(''message'', JObj [(''role'', JStr ''assistant''), (''content'', out)]),
               (''finish_reason'', JNull),
               (''index'', JNum 0)]])])"
  using assms by (auto simp: transformPalmResponse_def split: sum.splits)

text \<open>When the read of \<open>candidates[0].output\<close> throws, so does the transformation.\<close>

lemma transform_unreadable:
  assumes "js_path body [Inl ''candidates'', Inr 0, Inl ''output''] = Inl e"
  shows "transformPalmResponse uuid now body req = Inl e"
  using assms by (auto simp: transformPalmResponse_def split: sum.splits)

text \<open>
  C4, amended: for every request in the OpenAI dialect and every upstream body on which
  \<open>candidates[0].output\<close> can be read (the read does not throw; its value is \<open>out\<close>),
  the handler answers with status 200 and an object whose \<open>object\<close> is
  \<open>chat.completion\<close>, whose \<open>id\<close> is \<open>plm-\<close> followed by the UUID, whose
  \<open>choices[0].message\<close> is \<open>{role: "assistant", content: out}\<close>, whose
  \<open>choices[0].finish_reason\<close> is \<open>null\<close>, and whose \<open>usage\<close> has the request's
  \<open>promptTokens\<close> and \<open>outputTokens\<close> and their sum, a missing count taken as 0 in the
  sum. This holds with and without prompt logging and the debug information.
\<close>

theorem C4_normalized_when_candidate_readable:
  assumes "inboundApi req = OpenAI"
    and "js_path body [Inl ''candidates'', Inr 0, Inl ''output''] = Inr out"
  shows "\<exists>sent. palmResponseHandler promptLogging uuid now req body = Inr (200, sent) \<and>
     js_get sent ''object'' = Inr (JStr ''chat.completion'') \<and>
     js_get sent ''id'' = Inr (JStr (''plm-'' @ uuid)) \<and>
     js_path sent [Inl ''choices'', Inr 0, Inl ''message''] =
       Inr (JObj [(''role'', JStr ''assistant''), (''content'', out)]) \<and>
     js_path sent [Inl ''choices'', Inr 0, Inl ''finish_reason''] = Inr JNull \<and>
     js_path sent [Inl ''usage'', Inl ''prompt_tokens''] = Inr (opt_num (promptTokens req)) \<and>
     js_path sent [Inl ''usage'', Inl ''completion_tokens''] = Inr (opt_num (outputTokens req)) \<and>
     js_path sent [Inl ''usage'', Inl ''total_tokens''] =
       Inr (JNum ((case promptTokens req of None \<Rightarrow> 0 | Some n \<Rightarrow> n) +
                  (case outputTokens req of None \<Rightarrow> 0 | Some n \<Rightarrow> n)))"
proof -
  from assms(2) obtain kvs where body: "body = JObj kvs"
    by (cases body) (auto split: if_splits)
  define body1 where "body1 = (if promptLogging
       then JObj (AList.update ''proxy_note'' (JStr (proxy_note_text (host req))) kvs) else body)"
  have "js_get body1 ''candidates'' = js_get body ''candidates''"
    by (simp add: body1_def body update_conv')
  with assms(2) have p1: "js_path body1 [Inl ''candidates'', Inr 0, Inl ''output''] = Inr out"
    by simp
  define obj where "obj = 
       [(''id'', JStr (''plm-'' @ uuid)),
        (''object'', JStr ''chat.completion''),
        (''created'', JNum now),
        (''model'', opt_str (body_model req)),
        (''usage'', JObj
           [(''prompt_tokens'', opt_num (promptTokens req)),
            (''completion_tokens'', opt_num (outputTokens req)),
            (''total_tokens'', JNum ((case promptTokens req of None \<Rightarrow> 0 | Some n \<Rightarrow> n) +
                                     (case outputTokens req of None \<Rightarrow> 0 | Some n \<Rightarrow> n)))]),
        (''choices'', JArr
           [JObj
              [(''message'', JObj [(''role'', JStr ''assistant''), (''content'', out)]),
               (''finish_reason'', JNull),
               (''index'', JNum 0)]])]"
  have t: "transformPalmResponse uuid now body1 req = Inr (JObj obj)"
    unfolding obj_def by (rule transform_readable [OF p1])
  define sent where "sent = (if js_truthy (debug req)
       then JObj (AList.update ''proxy_tokenizer_debug_info'' (debug req) obj) else JObj obj)"
  have h: "palmResponseHandler promptLogging uuid now req body = Inr (200, sent)"
    using t assms(1)
    by (cases promptLogging; cases "js_truthy (debug req)")
       (simp_all add: palmResponseHandler_def body sent_def body1_def)
  have g: "js_get sent k = js_get (JObj obj) k" if "k \<noteq> ''proxy_tokenizer_debug_info''" for k
    using that by (simp add: sent_def update_conv')
  have "js_get sent ''object'' = Inr (JStr ''chat.completion'')"
    by (simp add: g) (simp add: obj_def)
  moreover have "js_get sent ''id'' = Inr (JStr (''plm-'' @ uuid))"
    by (simp add: g) (simp add: obj_def)
  moreover have "js_path sent [Inl ''choices'', Inr 0, Inl ''message''] =
       Inr (JObj [(''role'', JStr ''assistant''), (''content'', out)])"
    by (simp add: g) (simp add: obj_def)
  moreover have "js_path sent [Inl ''choices'', Inr 0, Inl ''finish_reason''] = Inr JNull"
    by (simp add: g) (simp add: obj_def)
  moreover have "js_path sent [Inl ''usage'', Inl ''prompt_tokens''] = Inr (opt_num (promptTokens req))"
    by (simp add: g) (simp add: obj_def)
  moreover have "js_path sent [Inl ''usage'', Inl ''completion_tokens''] = Inr (opt_num (outputTokens req))"
    by (simp add: g) (simp add: obj_def)
  moreover have "js_path sent [Inl ''usage'', Inl ''total_tokens''] =
       Inr (JNum ((case promptTokens req of None \<Rightarrow> 0 | Some n \<Rightarrow> n) +
                  (case outputTokens req of None \<Rightarrow> 0 | Some n \<Rightarrow> n)))"
    by (simp add: g) (simp add: obj_def)
  ultimately show ?thesis using h by blast
qed

text \<open>The spec's scenario: the upstream body \<open>{candidates: [{output: "pong"}]}\<close>.\<close>

theorem C4_witness:
  "inboundApi req_palm = OpenAI \<and>
   js_path body_pong [Inl ''candidates'', Inr 0, Inl ''output''] = Inr (JStr ''pong'') \<and>
   (\<exists>sent. palmResponseHandler True ''0000'' 0 req_palm body_pong = Inr (200, sent) \<and>
     js_get sent ''object'' = Inr (JStr ''chat.completion'') \<and>
     js_get sent ''id'' = Inr (JStr ''plm-0000'') \<and>
     js_path sent [Inl ''choices'', Inr 0, Inl ''message''] =
       Inr (JObj [(''role'', JStr ''assistant''), (''content'', JStr ''pong'')]) \<and>
     js_path sent [Inl ''choices'', Inr 0, Inl ''finish_reason''] = Inr JNull \<and>
     js_path sent [Inl ''usage'', Inl ''prompt_tokens''] = Inr (JNum 3) \<and>
     js_path sent [Inl ''usage'', Inl ''completion_tokens''] = Inr (JNum 1) \<and>
     js_path sent [Inl ''usage'', Inl ''total_tokens''] = Inr (JNum 4))"
proof -
  have a: "inboundApi req_palm = OpenAI" by (simp add: req_palm_def req0_def)
  have b: "js_path body_pong [Inl ''candidates'', Inr 0, Inl ''output''] = Inr (JStr ''pong'')"
    by (simp add: body_pong_def)
  have c: "promptTokens req_palm = Some 3" "outputTokens req_palm = Some 1"
    by (simp_all add: req_palm_def req0_def)
  from C4_normalized_when_candidate_readable [OF a b, of True "''0000''" 0] a b c
  show ?thesis by simp
qed

section \<open>Properties of the request queue\<close>

subsection \<open>Rounding to a double\<close>

lemma pow2_powi: "pow2 e = 2 powi e"
  by (simp add: pow2_def power_int_def inverse_eq_divide power_one_over)

lemma pow2_pos: "0 < pow2 e"
  by (simp add: pow2_powi)

lemma pow2_diff: "pow2 (a - b) = pow2 a / pow2 b"
  by (simp add: pow2_powi power_int_diff)

lemma pow2_mono: "a \<le> b \<Longrightarrow> pow2 a \<le> pow2 b"
  by (simp add: pow2_powi power_int_increasing)

lemma bitlen_pow2_bounds:
  assumes "0 < a"
  shows "pow2 (bitlen a - 1) \<le> of_int a" and "of_int a < pow2 (bitlen a)"
proof -
  from assms have b: "1 \<le> bitlen a"
    by (simp add: bitlen_alt_def)
  from bitlen_bounds [OF assms] have "2 ^ nat (bitlen a - 1) \<le> a" "a < 2 ^ nat (bitlen a)"
    by simp_all
  then have "(of_int (2 ^ nat (bitlen a - 1)) :: rat) \<le> of_int a" "(of_int a :: rat) < of_int (2 ^ nat (bitlen a))"
    by (simp_all only: of_int_le_iff of_int_less_iff)
  with b show "pow2 (bitlen a - 1) \<le> of_int a" and "of_int a < pow2 (bitlen a)"
    by (simp_all add: pow2_def)
qed

text \<open>\<open>binary_exponent\<close> is the exponent of the power of two at or below a positive number.\<close>

lemma binary_exponent_bounds:
  assumes "0 < x"
  shows "pow2 (binary_exponent x) \<le> x \<and> x < pow2 (binary_exponent x + 1)"
proof -
  obtain a b where q: "quotient_of x = (a, b)"
    by (cases "quotient_of x")
  then have x: "x = of_int a / of_int b" and b: "0 < b"
    by (simp_all add: quotient_of_div quotient_of_denom_pos)
  with assms have a: "0 < a"
    by (simp add: zero_less_divide_iff)
  define d where "d = bitlen a - bitlen b"
  have e: "binary_exponent x = (if pow2 d \<le> x then d else d - 1)"
    by (simp add: binary_exponent_def q d_def)
  note A = bitlen_pow2_bounds [OF a] and B = bitlen_pow2_bounds [OF b]
  have "x < pow2 (bitlen a) / pow2 (bitlen b - 1)"
    unfolding x using A(2) B(1) a b pow2_pos [of "bitlen b - 1"]
    by (intro frac_less) simp_all
  then have up: "x < pow2 (d + 1)"
    by (simp add: d_def pow2_diff [symmetric] algebra_simps)
  have "pow2 (bitlen a - 1) / pow2 (bitlen b) < x"
    unfolding x using A(1) B(2) a b pow2_pos [of "bitlen a - 1"]
    by (intro frac_less2) simp_all
  then have lo: "pow2 (d - 1) < x"
    by (simp add: d_def pow2_diff [symmetric] algebra_simps)
  show ?thesis
  proof (cases "pow2 d \<le> x")
    case True
    with e up show ?thesis by simp
  next
    case False
    with e lo show ?thesis by simp
  qed
qed


lemma round_half_even_of_int [simp]: "round_half_even (of_int m) = m"
  by (simp add: round_half_even_def)

lemma ulp_pos: "0 < ulp x"
  by (simp add: ulp_def pow2_pos)


text \<open>A multiple of the unit in the last place is a double: rounding leaves it as it is.\<close>

lemma round_double_exact:
  assumes "\<bar>x\<bar> = of_int m * ulp x"
  shows "round_double x = x"
proof (cases "x = 0")
  case True
  then show ?thesis by (simp add: round_double_def)
next
  case False
  from assms ulp_pos [of x] have "\<bar>x\<bar> / ulp x = of_int m" by (simp add: field_simps)
  with False assms show ?thesis
    by (simp add: round_double_def) (metis mult.assoc mult_sgn_abs)
qed

text \<open>So is every integer below \<open>2^53\<close> in magnitude.\<close>

lemma round_double_of_int:
  assumes "\<bar>k\<bar> < 2 ^ 53"
  shows "round_double (of_int k) = of_int k"
proof (cases "k = 0")
  case True
  then show ?thesis by (simp add: round_double_def)
next
  case False
  define x :: rat where "x = of_int k"
  define e where "e = binary_exponent \<bar>x\<bar>"
  from False have p: "0 < \<bar>x\<bar>" by (simp add: x_def)
  from binary_exponent_bounds [OF p] have lo: "pow2 e \<le> \<bar>x\<bar>" by (simp add: e_def)
  from assms have "\<bar>x\<bar> < 2 ^ 53"
    unfolding x_def by (metis of_int_abs of_int_less_numeral_power_cancel_iff)
  then have "\<bar>x\<bar> < pow2 53" by (simp add: pow2_def)
  with lo have "pow2 e < pow2 53" by simp
  then have e53: "e < 53"
    using pow2_mono [of 53 e] by (cases "e < 53") auto
  from False have "1 \<le> \<bar>k\<bar>" by simp
  then have "(of_int 1 :: rat) \<le> of_int \<bar>k\<bar>" by (simp only: of_int_le_iff)
  then have x1: "1 \<le> \<bar>x\<bar>" by (simp add: x_def)
  have e0: "0 \<le> e"
  proof (rule ccontr)
    assume "\<not> 0 \<le> e"
    then have "e + 1 \<le> 0" by simp
    from pow2_mono [OF this] binary_exponent_bounds [OF p] have "\<bar>x\<bar> < 1"
      by (simp add: e_def pow2_def)
    with x1 show False by simp
  qed
  have ux: "ulp x = pow2 (e - 52)"
    using e0 by (simp add: ulp_def e_def max_def)
  have "pow2 (e - 52) * 2 ^ nat (52 - e) = 1"
    using e53 e0 by (simp add: pow2_powi power_int_def nat_diff_distrib field_simps flip: power_add)
  then have one: "2 ^ nat (52 - e) * pow2 (e - 52) = 1"
    by (simp add: mult.commute)
  have "of_int (\<bar>k\<bar> * 2 ^ nat (52 - e)) * ulp x = \<bar>x\<bar> * (2 ^ nat (52 - e) * pow2 (e - 52))"
    unfolding ux by (simp add: x_def)
  with one have "\<bar>x\<bar> = of_int (\<bar>k\<bar> * 2 ^ nat (52 - e)) * ulp x"
    by simp
  from round_double_exact [OF this] show ?thesis by (simp add: x_def)
qed

subsection \<open>The estimated wait time\<close>

lemma foldl_wait_sum:
  "foldl (\<lambda>sum wait. sum + wt_end wait - wt_start wait) acc ws =
   acc + sum_list (map (\<lambda>w. wt_end w - wt_start w) ws)"
  by (induction ws arbitrary: acc) auto

lemma counted_samples_code:
  "filter (\<lambda>wait. wt_partition wait = p \<and> now - wt_end wait < 300 * 1000 \<and> \<not> isDeprioritized wait) wts
     = counted_samples now p wts"
  unfolding counted_samples_def by (rule filter_cong) auto

lemma getEstimatedWaitTime_rounded_mean:
  "getEstimatedWaitTime now wts p =
     (if counted_samples now p wts = [] then 0
      else round_double (arithmetic_mean (map (\<lambda>w. wt_end w - wt_start w) (counted_samples now p wts))))"
  using counted_samples_code [of p now wts]
  by (simp add: getEstimatedWaitTime_def Let_def js_divide_def arithmetic_mean_def foldl_wait_sum)


text \<open>When the mean is an integer below \<open>2^53\<close> in magnitude, the estimate is the mean.\<close>

lemma getEstimatedWaitTime_integer_mean:
  assumes "counted_samples now p wts \<noteq> []"
    and "arithmetic_mean (map (\<lambda>w. wt_end w - wt_start w) (counted_samples now p wts)) = of_int k"
    and "\<bar>k\<bar> < 2 ^ 53"
  shows "getEstimatedWaitTime now wts p = of_int k"
  using assms by (simp add: getEstimatedWaitTime_rounded_mean round_double_of_int)




subsection \<open>Pruning of the wait samples\<close>

text \<open>
  C8. The claim: after a run of \<open>cleanQueue\<close> no wait sample that ended more than 5
  minutes ago remains, however many there are. The code removes the samples up to the
  first such one only: of two samples that both ended more than 5 minutes before the
  run, the second is still there after it.
\<close>

theorem C8_stale_sample_survives:
  "waitTimes (cleanQueue 1000000 state_stale) = [sample2] \<and>
   1000000 - wt_end sample2 > 300 * 1000"
  by (simp add: cleanQueue_def state_stale_def state0_def sample1_def sample2_def)

subsection \<open>What the steps of the queue leave unchanged\<close>

lemma queue_upd_req [simp]: "queue (upd_req r f s) = queue s"
  by (simp add: upd_req_def)

lemma waitTimes_upd_req [simp]: "waitTimes (upd_req r f s) = waitTimes s"
  by (simp add: upd_req_def)

lemma heap_upd_req [simp]: "heap (upd_req r f s) r' = (if r' = r then f (heap s r) else heap s r')"
  by (simp add: upd_req_def)

lemma queue_upd_res [simp]: "queue (upd_res r f s) = queue s"
  by (simp add: upd_res_def)

lemma waitTimes_upd_res [simp]: "waitTimes (upd_res r f s) = waitTimes s"
  by (simp add: upd_res_def)

lemma heap_upd_res [simp]:
  "heap (upd_res r f s) r' = (if r' = r then (heap s r)\<lparr>res := f (res (heap s r))\<rparr> else heap s r')"
  by (simp add: upd_res_def)

lemma queue_initStreaming [simp]: "queue (initStreaming r s) = queue s"
  by (simp add: initStreaming_def Let_def)

lemma ip_initStreaming [simp]: "ip (heap (initStreaming r s) r') = ip (heap s r')"
  by (simp add: initStreaming_def Let_def)

lemma queue_enqueue_accept: "queue (enqueue_accept r s) = queue s @ [r]"
  by (simp add: enqueue_accept_def Let_def)

lemma ip_enqueue_accept: "ip (heap (enqueue_accept r s) r') = ip (heap s r')"
  by (simp add: enqueue_accept_def Let_def)

lemma enqueue_Inr_accept: "enqueue E r s = Inr s' \<Longrightarrow> s' = enqueue_accept r s"
  by (auto simp: enqueue_def Let_def split: if_splits)


subsection \<open>Admission\<close>

lemma enqueue_rejects_iff:
  "isl (enqueue E r s) =
     (identity_cap E (heap s r) \<le> queued_with_identity E s r \<and>
      (isFromSharedIp E (heap s r) \<longrightarrow> retryCount (heap s r) = 0))"
  by (simp add: enqueue_def Let_def identity_cap_def queued_with_identity_def sharesIdentifierWith_def
      AGNAI_CONCURRENCY_LIMIT_def USER_CONCURRENCY_LIMIT_def)

lemma enqueue_error:
  "enqueue E r s = Inl err \<Longrightarrow>
     err = (if isFromSharedIp E (heap s r)
            then Error ''Too many agnai.chat requests are already queued''
            else Error ''Your IP or token already has a request in the queue'')"
  by (auto simp: enqueue_def Let_def split: if_splits)




subsection \<open>A ticket in the queue at most once\<close>

lemma queued_with_identity_self:
  "r \<in> set (queue s) \<Longrightarrow> 0 < queued_with_identity E s r"
  by (auto simp: queued_with_identity_def filter_empty_conv)

lemma enqueue_queued_regular:
  assumes "r \<in> set (queue s)" and "\<not> isFromSharedIp E (heap s r)"
  shows "enqueue E r s = Inl (Error ''Your IP or token already has a request in the queue'')"
proof -
  from assms(2) have "identity_cap E (heap s r) = 1"
    by (simp add: identity_cap_def)
  with queued_with_identity_self [OF assms(1), of E] assms(2)
  have "isl (enqueue E r s)"
    by (simp add: enqueue_rejects_iff)
  then obtain err where e: "enqueue E r s = Inl err"
    by (cases "enqueue E r s") auto
  from enqueue_error [OF e] assms(2) e show ?thesis by simp
qed

lemma count_list_remove1: "count_list (remove1 x xs) r \<le> count_list xs r"
  by (induction xs) auto

lemma queue_dequeue:
  "queue (snd (dequeue E now p s)) = queue s \<or> (\<exists>x. queue (snd (dequeue E now p s)) = remove1 x (queue s))"
  by (auto simp: dequeue_def Let_def)

lemma ip_dequeue [simp]: "ip (heap (snd (dequeue E now p s)) r) = ip (heap s r)"
  by (simp add: dequeue_def Let_def)

lemma queue_removeFromQueue [simp]: "queue (removeFromQueue r s) = remove1 r (queue s)"
  by (simp add: removeFromQueue_def)

lemma ip_removeFromQueue [simp]: "ip (heap (removeFromQueue r' s) r) = ip (heap s r)"
  by (simp add: removeFromQueue_def upd_req_def)

lemma queue_heartbeat [simp]: "queue (heartbeat E now r s) = queue s"
  by (simp add: heartbeat_def Let_def)

lemma ip_heartbeat [simp]: "ip (heap (heartbeat E now r' s) r) = ip (heap s r)"
  by (simp add: heartbeat_def Let_def)

lemma queue_trackWaitTime [simp]: "queue (trackWaitTime E now r s) = queue s"
  by (simp add: trackWaitTime_def Let_def)

lemma heap_trackWaitTime [simp]: "heap (trackWaitTime E now r s) = heap s"
  by (simp add: trackWaitTime_def Let_def)

lemma queue_killQueuedRequest [simp]: "queue (killQueuedRequest r s) = queue s"
  by (simp add: killQueuedRequest_def Let_def)

lemma ip_killQueuedRequest [simp]: "ip (heap (killQueuedRequest r' s) r) = ip (heap s r)"
  by (simp add: killQueuedRequest_def Let_def)

lemma waitTimes_killQueuedRequest [simp]: "waitTimes (killQueuedRequest r s) = waitTimes s"
  by (simp add: killQueuedRequest_def Let_def)

lemma kill_all:
  "queue (foldl (\<lambda>st r. killQueuedRequest r st) s rs) = queue s \<and>
   waitTimes (foldl (\<lambda>st r. killQueuedRequest r st) s rs) = waitTimes s \<and>
   ip (heap (foldl (\<lambda>st r. killQueuedRequest r st) s rs) r) = ip (heap s r)"
  by (induction rs arbitrary: s) simp_all

lemma queue_cleanQueue [simp]: "queue (cleanQueue now s) = queue s"
  by (simp add: cleanQueue_def Let_def kill_all)

lemma ip_cleanQueue [simp]: "ip (heap (cleanQueue now s) r) = ip (heap s r)"
  by (simp add: cleanQueue_def Let_def kill_all)

lemma reachable_ip: "reachable E s0 s \<Longrightarrow> ip (heap s r) = ip (heap s0 r)"
proof (induction rule: reachable.induct)
  case (reach_enqueue s r' s')
  from enqueue_Inr_accept [OF reach_enqueue.hyps(2)] reach_enqueue.IH
  show ?case by (simp add: ip_enqueue_accept)
qed simp_all

lemma reachable_regular_once:
  assumes "queue s0 = []" and "reachable E s0 s" and "\<not> isFromSharedIp E (heap s0 r)"
  shows "count_list (queue s) r \<le> 1"
  using assms(2)
proof (induction rule: reachable.induct)
  case reach_init
  from assms(1) show ?case by simp
next
  case (reach_enqueue s r' s')
  have q: "queue s' = queue s @ [r']"
    using enqueue_Inr_accept [OF reach_enqueue.hyps(2)] by (simp add: queue_enqueue_accept)
  show ?case
  proof (cases "r' = r")
    case True
    from reachable_ip [OF reach_enqueue.hyps(1), of r] assms(3)
    have "\<not> isFromSharedIp E (heap s r)"
      by (simp add: isFromSharedIp_def)
    with reach_enqueue.hyps(2) True have "r \<notin> set (queue s)"
      using enqueue_queued_regular [of r s E] by auto
    then have "count_list (queue s) r = 0" by simp
    with q True show ?thesis by simp
  next
    case False
    with q reach_enqueue.IH show ?thesis by simp
  qed
next
  case (reach_dequeue s now p)
  from queue_dequeue [of E now p s] reach_dequeue.IH show ?case
    using count_list_remove1 le_trans by fastforce
next
  case (reach_abort s r')
  then show ?case using count_list_remove1 [of r' "queue s" r] by simp
qed simp_all

text \<open>
  The claim C3 has every ticket in the queue at most once, a second \<open>enqueue\<close> of a
  queued ticket raising or changing nothing. \<open>enqueue\<close> counts the queued tickets of
  the same identity and has no check of the ticket itself: the ticket of a guest at a
  shared address is appended a second time, since one queued ticket is below its cap
  of 5.
\<close>

theorem C3_counterexample:
  "enqueue env0 1 state_shared = Inr (enqueue_accept 1 state_shared) \<and>
   queue (enqueue_accept 1 state_shared) = [1] \<and>
   enqueue env0 1 (enqueue_accept 1 state_shared) = Inr (enqueue_accept 1 (enqueue_accept 1 state_shared)) \<and>
   queue (enqueue_accept 1 (enqueue_accept 1 state_shared)) = [1, 1]"
proof -
  have q0: "queue state_shared = []"
    by (simp add: state_shared_def)
  have i: "ip (heap state_shared 1) = ''9.9.9.9''" "user (heap state_shared 1) = None"
    "retryCount (heap state_shared 1) = 0"
    by (simp_all add: state_shared_def req_shared_def req0_def)
  have sh: "SHARED_IP_ADDRESSES env0 = {''9.9.9.9''}"
    by (simp add: env0_def)
  have a: "enqueue env0 1 state_shared = Inr (enqueue_accept 1 state_shared)"
    by (simp add: enqueue_def Let_def q0 AGNAI_CONCURRENCY_LIMIT_def USER_CONCURRENCY_LIMIT_def)
  have q1: "queue (enqueue_accept 1 state_shared) = [1]"
    by (simp add: queue_enqueue_accept q0)
  have i1: "ip (heap (enqueue_accept 1 state_shared) 1) = ''9.9.9.9''"
    by (simp add: ip_enqueue_accept state_shared_def req_shared_def req0_def)
  have u1: "user (heap (enqueue_accept 1 state_shared) 1) = None"
    by (simp add: enqueue_accept_def Let_def initStreaming_def state_shared_def req_shared_def req0_def)
  have b: "enqueue env0 1 (enqueue_accept 1 state_shared) = Inr (enqueue_accept 1 (enqueue_accept 1 state_shared))"
    using q1 i1 u1 sh
    by (simp add: enqueue_def Let_def isFromSharedIp_def AGNAI_CONCURRENCY_LIMIT_def USER_CONCURRENCY_LIMIT_def)
  have q2: "queue (enqueue_accept 1 (enqueue_accept 1 state_shared)) = [1, 1]"
    by (simp add: queue_enqueue_accept q0)
  from a q1 b q2 show ?thesis by simp
qed

text \<open>
  C3, amended: in every state reached from an empty queue, a ticket that is not from a
  shared address appears in the queue at most once, and \<open>enqueue\<close> of such a ticket
  while it is in the queue raises (the state is unchanged, an exception carrying none).
\<close>

theorem C3_regular_ticket_queued_once:
  assumes "queue s0 = []" and "reachable E s0 s" and "\<not> isFromSharedIp E (heap s r)"
  shows "count_list (queue s) r \<le> 1 \<and>
         (r \<in> set (queue s) \<longrightarrow>
            enqueue E r s = Inl (Error ''Your IP or token already has a request in the queue''))"
proof
  from reachable_ip [OF assms(2), of r] assms(3) have "\<not> isFromSharedIp E (heap s0 r)"
    by (simp add: isFromSharedIp_def)
  with assms(1,2) show "count_list (queue s) r \<le> 1"
    by (rule reachable_regular_once)
  from assms(3) show "r \<in> set (queue s) \<longrightarrow>
            enqueue E r s = Inl (Error ''Your IP or token already has a request in the queue'')"
    by (simp add: enqueue_queued_regular)
qed

text \<open>The request 1 of a guest at a regular address, after its first \<open>enqueue\<close>.\<close>

theorem C3_witness:
  "queue state0 = [] \<and>
   reachable env0 state0 (enqueue_accept 1 state0) \<and>
   \<not> isFromSharedIp env0 (heap (enqueue_accept 1 state0) 1) \<and>
   1 \<in> set (queue (enqueue_accept 1 state0)) \<and>
   count_list (queue (enqueue_accept 1 state0)) 1 \<le> 1 \<and>
   enqueue env0 1 (enqueue_accept 1 state0) =
     Inl (Error ''Your IP or token already has a request in the queue'')"
proof -
  have q0: "queue state0 = []"
    by (simp add: state0_def)
  have e: "enqueue env0 1 state0 = Inr (enqueue_accept 1 state0)"
    by (simp add: enqueue_def Let_def q0 AGNAI_CONCURRENCY_LIMIT_def USER_CONCURRENCY_LIMIT_def)
  have r: "reachable env0 state0 (enqueue_accept 1 state0)"
    by (rule reach_enqueue [OF reach_init e])
  have n: "\<not> isFromSharedIp env0 (heap (enqueue_accept 1 state0) 1)"
    by (simp add: isFromSharedIp_def ip_enqueue_accept state0_def req0_def env0_def)
  have m: "1 \<in> set (queue (enqueue_accept 1 state0))"
    by (simp add: queue_enqueue_accept)
  from C3_regular_ticket_queued_once [OF q0 r n] q0 r n m show ?thesis by simp
qed

subsection \<open>Heartbeats and \<open>badSseParser\<close>\<close>

lemma written_initStreaming_bad:
  "js_truthy (opt_str (query_badSseParser (heap s r))) \<Longrightarrow>
     written (res (heap (initStreaming r s) r')) = written (res (heap s r'))"
  by (simp add: initStreaming_def Let_def initializeSseStream_def)

lemma written_enqueue_accept_bad:
  "js_truthy (opt_str (query_badSseParser (heap s r))) \<Longrightarrow>
     written (res (heap (enqueue_accept r s) r')) = written (res (heap s r'))"
  by (simp add: enqueue_accept_def Let_def written_initStreaming_bad)

text \<open>
  The claim C9 has \<open>badSseParser\<close> suppress the diagnostic heartbeat too. Outside
  production mode the heartbeat does not look at the parameter: the waiting request that
  came with \<open>?badSseParser=true\<close> is written a fake event.
\<close>

theorem C9_counterexample:
  "query_badSseParser (heap state_bad 1) = Some ''true'' \<and>
   written (res (heap state_bad 1)) = [] \<and>
   written (res (heap (heartbeat env0 10000 1 state_bad) 1)) =
     [FakeSse ''heartbeat'' ''queue length: 1; elapsed time: 10s; avg wait: 0s'']"
  by code_simp

text \<open>
  C9, amended: for a ticket whose request carries a truthy \<open>badSseParser\<close> parameter,
  \<open>enqueue\<close> writes nothing to the client (no joining-queue comment) and the heartbeat
  of production mode writes nothing (no comment line); the heartbeat outside production
  mode still writes its fake event.
\<close>

theorem C9_bad_parser_suppresses_comments_only:
  assumes "js_truthy (opt_str (query_badSseParser (heap s r)))"
  shows "(\<forall>s'. enqueue E r s = Inr s' \<longrightarrow> written (res (heap s' r)) = written (res (heap s r))) \<and>
         (production E \<longrightarrow> heartbeat E now r s = s) \<and>
         (\<not> production E \<longrightarrow>
            (\<exists>msg. written (res (heap (heartbeat E now r s) r)) =
                     written (res (heap s r)) @ [FakeSse ''heartbeat'' msg]))"
proof (intro conjI allI impI)
  fix s' assume "enqueue E r s = Inr s'"
  from enqueue_Inr_accept [OF this] assms
  show "written (res (heap s' r)) = written (res (heap s r))"
    by (simp add: written_enqueue_accept_bad)
next
  assume "production E"
  with assms show "heartbeat E now r s = s"
    by (simp add: heartbeat_def)
next
  assume "\<not> production E"
  then show "\<exists>msg. written (res (heap (heartbeat E now r s) r)) =
                     written (res (heap s r)) @ [FakeSse ''heartbeat'' msg]"
    by (simp add: heartbeat_def Let_def res_write_def)
qed

text \<open>The waiting request with \<open>?badSseParser=true\<close>, in production mode.\<close>

theorem C9_witness:
  "js_truthy (opt_str (query_badSseParser (heap state_bad 1))) \<and>
   production (env0\<lparr>production := True\<rparr>) \<and>
   heartbeat (env0\<lparr>production := True\<rparr>) 10000 1 state_bad = state_bad"
proof -
  have a: "js_truthy (opt_str (query_badSseParser (heap state_bad 1)))"
    by (simp add: state_bad_def req_bad_def req0_def)
  from C9_bad_parser_suppresses_comments_only [OF a, of "env0\<lparr>production := True\<rparr>" 10000] a
  show ?thesis by simp
qed

subsection \<open>What \<open>dequeue\<close> returns\<close>

lemma set_js_insert [simp]: "set (js_insert cmp x ys) = insert x (set ys)"
  by (induction ys) auto

lemma set_js_sort [simp]: "set (js_sort cmp xs) = set xs"
  by (induction xs) (simp_all add: js_sort_def)

lemma foldl_earliest:
  "foldl (\<lambda>prev curr. if (k prev :: int) < k curr then prev else curr) x xs \<in> set (x # xs) \<and>
   (\<forall>y \<in> set (x # xs). k (foldl (\<lambda>prev curr. if k prev < k curr then prev else curr) x xs) \<le> k y)"
proof (induction xs arbitrary: x)
  case Nil
  show ?case by simp
next
  case (Cons a as)
  from Cons [of "if k x < k a then x else a"] show ?case
    by (auto split: if_splits)
qed

lemma dequeue_earliest_of_partition:
  assumes "fst (dequeue E now p s) = Some r"
  shows "r \<in> set (queue s) \<and> getPartitionForRequest E (heap s r) = p \<and>
         (\<forall>q \<in> set (queue s). getPartitionForRequest E (heap s q) = p \<longrightarrow>
            startTime (heap s r) \<le> startTime (heap s q))"
proof -
  define mq where "mq = getQueueForPartition E s p"
  have m: "set mq = {q \<in> set (queue s). getPartitionForRequest E (heap s q) = p}"
    by (simp add: mq_def getQueueForPartition_def)
  from assms have ne: "mq \<noteq> []"
    by (auto simp: dequeue_def Let_def mq_def split: if_splits)
  then have c: "hd mq # tl mq = mq" by simp
  from assms ne have r: "r = foldl (\<lambda>prev curr. if startTime (heap s prev) < startTime (heap s curr) then prev else curr) (hd mq) (tl mq)"
    by (auto simp: dequeue_def Let_def mq_def js_reduce1_def split: if_splits)
  from foldl_earliest [of "\<lambda>q. startTime (heap s q)" "hd mq" "tl mq"] r c
  have "r \<in> set mq \<and> (\<forall>y \<in> set mq. startTime (heap s r) \<le> startTime (heap s y))"
    by simp
  with m show ?thesis by auto
qed

text \<open>
  So \<open>dequeue\<close> returns a ticket of the partition with the earliest start time among
  all the tickets of the partition, deprioritized or not: the order that
  \<open>getQueueForPartition\<close> puts them in only decides between equal start times.

  C1. The claim: \<open>dequeue\<close> returns a non-deprioritized ticket of the partition
  whenever there is one. In the spec's scenario, a ticket from a shared address that
  started first and a ticket from a regular address that started second, both in the
  partition \<open>turbo\<close>, the code returns the ticket from the shared address.
\<close>

theorem C1_shared_ticket_served_first:
  "fst (dequeue env0 5000 Turbo state_mixed) = Some 1 \<and>
   isFromSharedIp env0 (heap state_mixed 1) \<and>
   2 \<in> set (queue state_mixed) \<and>
   getPartitionForRequest env0 (heap state_mixed 2) = Turbo \<and>
   \<not> isFromSharedIp env0 (heap state_mixed 2)"
  by (simp add: dequeue_def getQueueForPartition_def js_sort_def js_reduce1_def exemptedLast_def
      getPartitionForRequest_def isFromSharedIp_def state_mixed_def env0_def req_shared_def req0_def
      example_getOpenAIModelFamily_def Let_def)

end
